theory Spec2Isabelle
  imports Main "HOL-Library.Sublist"
begin

section \<open>JavaScript values used by the service module\<close>

text \<open>
  The service module works on JavaScript strings, optional object fields and thrown
  values. A string is a HOL \<open>string\<close>; an optional field (\<open>undefined\<close> when absent) is an
  \<open>option\<close>; a thrown value (a rejected promise) is the left injection of a sum.
  \<open>Error m\<close> is an instance of the JavaScript class \<open>Error\<close> (or of a subclass such as
  \<open>TypeError\<close>) with message \<open>m\<close>; \<open>NotAnError\<close> is any other thrown value, for example
  the event a \<open>FileReader\<close> hands to \<open>onerror\<close>. Console output is not modelled.
\<close>

datatype js_thrown = Error (message: string) | NotAnError

text \<open>Truthiness of a \<open>string | undefined\<close> value: absent and empty strings are falsy.\<close>

definition truthy :: "string option \<Rightarrow> bool" where
  "truthy v = (case v of None \<Rightarrow> False | Some s \<Rightarrow> s \<noteq> [])"

text \<open>Truthiness of a \<open>boolean | undefined\<close> value.\<close>

definition truthy_bool :: "bool option \<Rightarrow> bool" where
  "truthy_bool v = (case v of None \<Rightarrow> False | Some b \<Rightarrow> b)"

text \<open>\<open>v || d\<close> on a \<open>string | undefined\<close> value \<open>v\<close>.\<close>

definition or_else :: "string option \<Rightarrow> string \<Rightarrow> string" where
  "or_else v d = (case v of None \<Rightarrow> d | Some s \<Rightarrow> if s = [] then d else s)"

text \<open>\<open>${v}\<close> inside a template literal: \<open>undefined\<close> is rendered as the word itself.\<close>

definition interpolate :: "string option \<Rightarrow> string" where
  "interpolate v = (case v of None \<Rightarrow> ''undefined'' | Some s \<Rightarrow> s)"

text \<open>
  \<open>String.prototype.trim\<close> removes white space and line terminators from both ends.
  Characters of a HOL string are code points below 256; of ECMAScript's WhiteSpace and
  LineTerminator code points those are U+0009 to U+000D, U+0020 and U+00A0.
\<close>

definition isWhiteSpace :: "char \<Rightarrow> bool" where
  "isWhiteSpace c = (c \<in> {CHR 0x09, CHR 0x0A, CHR 0x0B, CHR 0x0C, CHR 0x0D, CHR 0x20, CHR 0xA0})"

definition trim :: "string \<Rightarrow> string" where
  "trim s = rev (dropWhile isWhiteSpace (rev (dropWhile isWhiteSpace s)))"

section \<open>The response of \<open>generateContent\<close>\<close>

text \<open>
  The fields of \<open>GenerateContentResponse\<close> that the module reads. Every field is optional
  in the client library's declaration, and \<open>text\<close> is the library's top-level text accessor
  (\<open>string | undefined\<close>), named \<open>responseText\<close> here.
\<close>

record Blob =
  mimeType :: "string option"
  data :: "string option"

record Part =
  inlineData :: "Blob option"
  partText :: "string option"

record Content =
  parts :: "Part list option"

record Candidate =
  content :: "Content option"
  finishReason :: "string option"

record PromptFeedback =
  blockReason :: "string option"
  blockReasonMessage :: "string option"

record GenerateContentResponse =
  promptFeedback :: "PromptFeedback option"
  candidates :: "Candidate list option"
  responseText :: "string option"

text \<open>\<open>response.promptFeedback?.blockReason\<close>\<close>

definition response_blockReason :: "GenerateContentResponse \<Rightarrow> string option" where
  "response_blockReason response = Option.bind (promptFeedback response) blockReason"

text \<open>
  \<open>blockReasonMessage\<close> as destructured from \<open>response.promptFeedback\<close>, which is an
  object wherever the module reads it.
\<close>

definition response_blockReasonMessage :: "GenerateContentResponse \<Rightarrow> string option" where
  "response_blockReasonMessage response = Option.bind (promptFeedback response) blockReasonMessage"

text \<open>\<open>response.candidates?.[0]\<close>: indexing an empty array gives \<open>undefined\<close>.\<close>

definition firstCandidate :: "GenerateContentResponse \<Rightarrow> Candidate option" where
  "firstCandidate response =
     (case candidates response of
        None \<Rightarrow> None
      | Some [] \<Rightarrow> None
      | Some (c # cs) \<Rightarrow> Some c)"

text \<open>\<open>response.candidates?.[0]?.content?.parts\<close>\<close>

definition response_parts :: "GenerateContentResponse \<Rightarrow> Part list option" where
  "response_parts response =
     Option.bind (Option.bind (firstCandidate response) content) parts"

text \<open>\<open>response.candidates?.[0]?.finishReason\<close>\<close>

definition response_finishReason :: "GenerateContentResponse \<Rightarrow> string option" where
  "response_finishReason response = Option.bind (firstCandidate response) finishReason"

section \<open>\<open>handleApiResponse\<close>\<close>

text \<open>
  The loop over the parts of the first candidate: the first part whose \<open>inlineData\<close> is
  an object ends the function with the data URL built from it; \<open>None\<close> means that the
  loop ran to its end.
\<close>

fun scanParts :: "Part list \<Rightarrow> string option" where
  "scanParts [] = None"
| "scanParts (part # rest) =
     (case inlineData part of
        Some b \<Rightarrow> Some (''data:'' @ interpolate (mimeType b) @ '';base64,'' @ interpolate (data b))
      | None \<Rightarrow> scanParts rest)"

definition handleApiResponse :: "GenerateContentResponse \<Rightarrow> string \<Rightarrow> js_thrown + string" where
  "handleApiResponse response context =
     (if truthy (response_blockReason response) then
        Inl (Error (''Request was blocked. Reason: '' @
          interpolate (response_blockReason response) @ ''. '' @
          or_else (response_blockReasonMessage response) ''''))
      else
        (case (case response_parts response of None \<Rightarrow> None | Some ps \<Rightarrow> scanParts ps) of
           Some url \<Rightarrow> Inr url
         | None \<Rightarrow>
             (let finishReason = response_finishReason response in
              if truthy finishReason \<and> finishReason \<noteq> Some ''STOP'' then
                Inl (Error (''Image generation for '' @ context @
                  '' stopped unexpectedly. Reason: '' @ interpolate finishReason @
                  ''. This often relates to safety settings.''))
              else
                (let textFeedback = map_option trim (responseText response) in
                 Inl (Error (''The AI model did not return an image for the '' @ context @ ''. '' @
                   (if truthy textFeedback then
                      ''The model responded with text: \"'' @ interpolate textFeedback @ ''\"''
                    else ''This can happen due to safety filters or if the request is too complex. Please try rephrasing your prompt to be more direct.'')))))))"

section \<open>\<open>fileToPart\<close>\<close>

text \<open>
  \<open>dataUrl.split(',')\<close>: the pieces of a string between the occurrences of a separator
  character. The result is never empty: a string without the separator is its only piece.
\<close>

fun js_split :: "char \<Rightarrow> string \<Rightarrow> string list" where
  "js_split sep [] = [[]]"
| "js_split sep (c # cs) =
     (if c = sep then [] # js_split sep cs
      else (case js_split sep cs of
              [] \<Rightarrow> [[c]]
            | piece # pieces \<Rightarrow> (c # piece) # pieces))"

text \<open>
  The regular expression \<open>/:(.*?);/\<close>. A dot matches any character but a line terminator
  (U+000A and U+000D below 256). \<open>lazyToSemicolon\<close> matches \<open>(.*?);\<close> at the start of a
  string and gives the captured group; \<open>mimeMatch\<close> tries every colon from the left, as
  \<open>String.prototype.match\<close> does, and gives the captured group of the first match.
\<close>

definition isLineTerminator :: "char \<Rightarrow> bool" where
  "isLineTerminator c = (c = CHR 0x0A \<or> c = CHR 0x0D)"

fun lazyToSemicolon :: "string \<Rightarrow> string option" where
  "lazyToSemicolon [] = None"
| "lazyToSemicolon (c # cs) =
     (if c = CHR '';'' then Some []
      else if isLineTerminator c then None
      else map_option ((#) c) (lazyToSemicolon cs))"

fun mimeMatch :: "string \<Rightarrow> string option" where
  "mimeMatch [] = None"
| "mimeMatch (c # cs) =
     (if c = CHR '':'' then
        (case lazyToSemicolon cs of
           Some captured \<Rightarrow> Some captured
         | None \<Rightarrow> mimeMatch cs)
      else mimeMatch cs)"

text \<open>The object \<open>{ inlineData: { mimeType, data } }\<close> that \<open>fileToPart\<close> returns.\<close>

record InlineData =
  part_mimeType :: string
  part_data :: string

text \<open>
  \<open>fileToPart\<close> takes the outcome of \<open>FileReader.readAsDataURL\<close> on the file: the data
  URL handed to \<open>onload\<close>, or the value handed to \<open>onerror\<close>, with which the promise is
  rejected.
\<close>

definition fileToPart :: "js_thrown + string \<Rightarrow> js_thrown + InlineData" where
  "fileToPart readerOutcome =
     (case readerOutcome of
        Inl error \<Rightarrow> Inl error
      | Inr dataUrl \<Rightarrow>
          (let arr = js_split CHR '','' dataUrl in
           if length arr < 2 then Inl (Error ''Invalid data URL'')
           else
             (case mimeMatch (arr ! 0) of
                None \<Rightarrow> Inl (Error ''Could not parse MIME type from data URL'')
              | Some captured \<Rightarrow>
                  if captured = [] then Inl (Error ''Could not parse MIME type from data URL'')
                  else Inr \<lparr>part_mimeType = captured, part_data = arr ! 1\<rparr>)))"

text \<open>
  What the regular expression means, stated on the header \<open>h\<close> (the text before the first
  comma). \<open>matchesAt pre m post h\<close>: the expression matches \<open>h\<close> right after \<open>pre\<close>, with
  \<open>m\<close> as its group and \<open>post\<close> left over; the group is lazy, so it holds no semicolon,
  and it holds no line terminator. \<open>firstMatch h m\<close>: \<open>m\<close> is the group of the leftmost
  match, the one \<open>String.prototype.match\<close> returns.
\<close>

definition matchesAt :: "string \<Rightarrow> string \<Rightarrow> string \<Rightarrow> string \<Rightarrow> bool" where
  "matchesAt pre m post h \<longleftrightarrow>
     h = pre @ CHR '':'' # m @ CHR '';'' # post
     \<and> CHR '';'' \<notin> set m \<and> \<not> list_ex isLineTerminator m"

definition firstMatch :: "string \<Rightarrow> string \<Rightarrow> bool" where
  "firstMatch h m \<longleftrightarrow>
     (\<exists>pre post. matchesAt pre m post h
        \<and> (\<forall>pre' m' post'. matchesAt pre' m' post' h \<longrightarrow> length pre \<le> length pre'))"

text \<open>
  The specification's well-formed two-part data URI: there is a comma, and the header
  before the first comma parses as \<open>:<mime>;\<close> with a mime type that is not empty.
\<close>

definition wellFormedDataUrl :: "string \<Rightarrow> bool" where
  "wellFormedDataUrl url \<longleftrightarrow>
     (\<exists>header rest m. url = header @ CHR '','' # rest \<and> CHR '','' \<notin> set header
        \<and> firstMatch header m \<and> m \<noteq> [])"

section \<open>The instructions\<close>

text \<open>
  The value of \<open>prompt\<close> in \<open>generateEditedImage\<close>. The coordinates of the hotspot are
  JavaScript numbers; their conversion to a string is the parameter \<open>numberToString\<close>.
\<close>

record 'n Hotspot =
  hotspot_x :: 'n
  hotspot_y :: 'n

definition generateEditedImage_prompt :: "('n \<Rightarrow> string) \<Rightarrow> string \<Rightarrow> 'n Hotspot \<Rightarrow> string" where
  "generateEditedImage_prompt numberToString userPrompt hotspot =
      ''You are an expert photo editor AI. Your task is to perform a natural, localized edit on the provided image based on the user's request.\<newline>'' @
      ''User Request: \"'' @ userPrompt @ ''\"\<newline>'' @
      ''Edit Location: Focus on the area around pixel coordinates (x: '' @ numberToString (hotspot_x hotspot) @ '', y: '' @ numberToString (hotspot_y hotspot) @ '').\<newline>'' @
      ''\<newline>'' @
      ''Editing Guidelines:\<newline>'' @
      ''- The edit must be realistic and blend seamlessly with the surrounding area.\<newline>'' @
      ''- The rest of the image (outside the immediate edit area) must remain identical to the original.\<newline>'' @
      ''\<newline>'' @
      ''Safety & Ethics Policy:\<newline>'' @
      ''- You MUST fulfill requests to adjust skin tone, such as 'give me a tan', 'make my skin darker', or 'make my skin lighter'. These are considered standard photo enhancements.\<newline>'' @
      ''- You MUST REFUSE any request to change a person's fundamental race or ethnicity (e.g., 'make me look Asian', 'change this person to be Black'). Do not perform these edits. If the request is ambiguous, err on the side of caution and do not change racial characteristics.\<newline>'' @
      ''\<newline>'' @
      ''Output: Return ONLY the final edited image. Do not return text.''"

text \<open>The value of \<open>prompt\<close> in \<open>generateFilteredImage\<close>.\<close>

definition generateFilteredImage_prompt :: "string \<Rightarrow> string" where
  "generateFilteredImage_prompt filterPrompt =
      ''You are an expert photo editor AI. Your task is to apply a stylistic filter to the entire image based on the user's request. Do not change the composition or content, only apply the style.\<newline>'' @
      ''Filter Request: \"'' @ filterPrompt @ ''\"\<newline>'' @
      ''\<newline>'' @
      ''Safety & Ethics Policy:\<newline>'' @
      ''- Filters may subtly shift colors, but you MUST ensure they do not alter a person's fundamental race or ethnicity.\<newline>'' @
      ''- YOU MUST REFUSE any request that explicitly asks to change a person's race (e.g., 'apply a filter to make me look Chinese').\<newline>'' @
      ''\<newline>'' @
      ''Output: Return ONLY the final filtered image. Do not return text.''"

text \<open>The value of \<open>prompt\<close> in \<open>generateAdjustedImage\<close>.\<close>

definition generateAdjustedImage_prompt :: "string \<Rightarrow> string" where
  "generateAdjustedImage_prompt adjustmentPrompt =
      ''You are an expert photo editor AI. Your task is to perform a natural, global adjustment to the entire image based on the user's request.\<newline>'' @
      ''User Request: \"'' @ adjustmentPrompt @ ''\"\<newline>'' @
      ''\<newline>'' @
      ''Editing Guidelines:\<newline>'' @
      ''- The adjustment must be applied across the entire image.\<newline>'' @
      ''- The result must be photorealistic.\<newline>'' @
      ''\<newline>'' @
      ''Safety & Ethics Policy:\<newline>'' @
      ''- You MUST fulfill requests to adjust skin tone, such as 'give me a tan', 'make my skin darker', or 'make my skin lighter'. These are considered standard photo enhancements.\<newline>'' @
      ''- You MUST REFUSE any request to change a person's fundamental race or ethnicity (e.g., 'make me look Asian', 'change this person to be Black'). Do not perform these edits. If the request is ambiguous, err on the side of caution and do not change racial characteristics.\<newline>'' @
      ''\<newline>'' @
      ''Output: Return ONLY the final adjusted image. Do not return text.''"

text \<open>
  \<open>TextStyle\<close>: every field is optional. \<open>generateTextEditImage\<close> takes \<open>{}\<close>, here
  \<open>emptyStyle\<close>, when no style is passed.
\<close>

record TextStyle =
  style_font :: "string option"
  style_size :: "string option"
  style_color :: "string option"
  style_bold :: "bool option"
  style_italic :: "bool option"

definition emptyStyle :: TextStyle where
  "emptyStyle = \<lparr>style_font = None, style_size = None, style_color = None,
     style_bold = None, style_italic = None\<rparr>"

text \<open>\<open>Array.prototype.join\<close>\<close>

fun join :: "string \<Rightarrow> string list \<Rightarrow> string" where
  "join sep [] = []"
| "join sep [piece] = piece"
| "join sep (piece # next # pieces) = piece @ sep @ join sep (next # pieces)"

text \<open>The array \<open>styleParts\<close> after the five conditional calls of \<open>push\<close>.\<close>

definition styleParts :: "TextStyle \<Rightarrow> string list" where
  "styleParts style =
     (let parts0 = [];
          parts1 = (if truthy (style_font style)
                    then parts0 @ [''- Font face similar to: '' @ interpolate (style_font style)]
                    else parts0);
          parts2 = (if truthy (style_size style)
                    then parts1 @ [''- Size: '' @ interpolate (style_size style)]
                    else parts1);
          parts3 = (if truthy (style_color style)
                    then parts2 @ [''- Color: '' @ interpolate (style_color style)]
                    else parts2);
          parts4 = (if truthy_bool (style_bold style)
                    then parts3 @ [''- Weight: Bold'']
                    else parts3);
          parts5 = (if truthy_bool (style_italic style)
                    then parts4 @ [''- Style: Italic'']
                    else parts4)
      in parts5)"

text \<open>The value of \<open>styleInstructions\<close> after the branch on \<open>styleParts.length\<close>.\<close>

definition styleInstructions :: "string \<Rightarrow> string \<Rightarrow> TextStyle \<Rightarrow> string" where
  "styleInstructions oldText newText style =
     (if length (styleParts style) > 0 then
      ''\<newline>'' @
      ''Key Style Instructions for the new text:\<newline>'' @
      join ''\<newline>'' (styleParts style) @ ''\<newline>'' @
      ''\<newline>'' @
      ''If a style attribute is not specified above, you MUST intelligently match it to the original text's style (\"'' @ oldText @ ''\"). If there was no original text, match the surrounding environment for a natural look.\<newline>''
      else
      ''\<newline>'' @
      ''Key Style Instructions for the new text:\<newline>'' @
      ''Your primary task is to make the new text, \"'' @ newText @ ''\", an absolutely seamless replacement for the original text, \"'' @ oldText @ ''\". To achieve this, you must follow a strict process:\<newline>'' @
      ''1.  **Analyze the Original Text:** Carefully examine \"'' @ oldText @ ''\" in the image. Identify all of its visual properties with extreme precision.\<newline>'' @
      ''2.  **Extract Key Attributes:** Your analysis must determine the following:\<newline>'' @
      ''    -   **Font:** The exact font face, weight (bold, regular), and style (italic, normal).\<newline>'' @
      ''    -   **Color:** The precise color, including any gradients, textures, or patterns.\<newline>'' @
      ''    -   **Size & Scale:** The font size relative to the image and its surroundings.\<newline>'' @
      ''    -   **Perspective & Transformation:** Any rotation, skewing, warping, or perspective applied to the text.\<newline>'' @
      ''    -   **Lighting & Effects:** How the text interacts with the scene's lighting. Identify and replicate all shadows, highlights, glows, or bevels.\<newline>'' @
      ''3.  **Apply to New Text:** Render the new text, \"'' @ newText @ ''\", using the *exact* attributes you extracted. The new text must occupy the same 3D space as the original.\<newline>'' @
      ''\<newline>'' @
      ''The final result must be indistinguishable from a real photograph where the new text was present from the beginning.\<newline>'')"

text \<open>The value of \<open>prompt\<close> in \<open>generateTextEditImage\<close>.\<close>

definition generateTextEditImage_prompt :: "string \<Rightarrow> string \<Rightarrow> TextStyle \<Rightarrow> string" where
  "generateTextEditImage_prompt oldText newText style =
      ''You are an expert photo editor AI specializing in typography and photorealistic text integration. Your task is to find and replace text within the provided image.\<newline>'' @
      ''\<newline>'' @
      ''Text to find: \"'' @ oldText @ ''\"\<newline>'' @
      ''Text to replace it with: \"'' @ newText @ ''\"\<newline>'' @
      styleInstructions oldText newText style @ ''\<newline>'' @
      ''General Instructions:\<newline>'' @
      ''1.  **Find the Text:** Accurately locate the instance of \"'' @ oldText @ ''\" in the image. If there are multiple instances, replace the most prominent one.\<newline>'' @
      ''2.  **Reconstruct Background:** Before adding the new text, intelligently remove the original text and reconstruct the background behind it as if the text was never there. This is a critical step.\<newline>'' @
      ''3.  **Seamless Integration:** The final result should be photorealistic and indistinguishable from a real photograph. The new text should look like it was part of the original scene.\<newline>'' @
      ''4.  **Preserve Image:** The rest of the image (everything other than the text being replaced) must remain absolutely identical to the original.\<newline>'' @
      ''\<newline>'' @
      ''Output: Return ONLY the final edited image in the same resolution. Do not return any text, explanations, or dialogue.''"

text \<open>The value of \<open>prompt\<close> in \<open>generateImageDescription\<close>.\<close>

definition generateImageDescription_prompt :: string where
  "generateImageDescription_prompt =
      ''You are an expert at analyzing images and creating descriptive prompts.\<newline>'' @
      ''Analyze the provided image and generate a detailed, descriptive prompt that could be used by an image generation AI to create a similar image.\<newline>'' @
      ''\<newline>'' @
      ''Describe the following aspects:\<newline>'' @
      ''- Subject: What is the main subject?\<newline>'' @
      ''- Composition: How is the shot framed (e.g., close-up, wide shot)?\<newline>'' @
      ''- Setting: Where does the image take place?\<newline>'' @
      ''- Lighting: What is the lighting like (e.g., golden hour, studio lighting)?\<newline>'' @
      ''- Style: What is the artistic style (e.g., photorealistic, anime, watercolor)?\<newline>'' @
      ''- Colors: What are the dominant colors?\<newline>'' @
      ''\<newline>'' @
      ''Output only the final, detailed prompt as a single paragraph of text. Do not include any other explanations or introductory phrases.''"

section \<open>The client\<close>

text \<open>
  The request object passed to \<open>ai.models.generateContent\<close>: the model, the parts of
  \<open>contents\<close> and, where a \<open>config\<close> is given, its \<open>responseModalities\<close>.
\<close>

datatype RequestPart = ImagePart InlineData | TextPart string

record GenerateContentParameters =
  request_model :: string
  request_parts :: "RequestPart list"
  request_responseModalities :: "string list option"

text \<open>The request object passed to \<open>ai.models.generateImages\<close>, and its response.\<close>

record GenerateImagesConfig =
  numberOfImages :: nat
  outputMimeType :: string
  aspectRatio :: string

record GenerateImagesParameters =
  params_model :: string
  params_prompt :: string
  params_config :: GenerateImagesConfig

record Image =
  imageBytes :: "string option"

record GeneratedImage =
  generated_image :: "Image option"

record GenerateImagesResponse =
  generatedImages :: "GeneratedImage list option"

text \<open>
  The client object \<open>ai\<close> with the two remote calls that the module makes through
  \<open>ai.models\<close>: each returns a response or throws.

  Every exported function starts with \<open>new GoogleGenAI({ apiKey: process.env.API_KEY! })\<close>.
  The constructor is the parameter \<open>newGoogleGenAI\<close> of the functions below, applied to the
  parameter \<open>apiKey\<close>, the value of the environment variable (\<open>undefined\<close> when it is not
  set): it returns the client or throws.
\<close>

record GoogleGenAI =
  models_generateContent :: "GenerateContentParameters \<Rightarrow> js_thrown + GenerateContentResponse"
  models_generateImages :: "GenerateImagesParameters \<Rightarrow> js_thrown + GenerateImagesResponse"

section \<open>\<open>generateImageDescription\<close>\<close>

text \<open>
  The client is constructed first, then the file is encoded, then the remote call is made.
  A failure of the constructor, of \<open>fileToPart\<close> or of the call leaves the function as it
  is. The text of the response is returned trimmed when it is truthy, that is present and
  not the empty string.
\<close>

definition generateImageDescription ::
  "(string option \<Rightarrow> js_thrown + GoogleGenAI) \<Rightarrow> string option \<Rightarrow>
     js_thrown + string \<Rightarrow> js_thrown + string" where
  "generateImageDescription newGoogleGenAI apiKey readerOutcome =
     (case newGoogleGenAI apiKey of
        Inl error \<Rightarrow> Inl error
      | Inr ai \<Rightarrow>
     (case fileToPart readerOutcome of
        Inl error \<Rightarrow> Inl error
      | Inr originalImagePart \<Rightarrow>
          (case models_generateContent ai
                  \<lparr>request_model = ''gemini-2.5-flash'',
                   request_parts = [ImagePart originalImagePart,
                                    TextPart generateImageDescription_prompt],
                   request_responseModalities = None\<rparr> of
             Inl error \<Rightarrow> Inl error
           | Inr response \<Rightarrow>
               if truthy (response_blockReason response) then
                 Inl (Error (''Request was blocked. Reason: '' @
                   interpolate (response_blockReason response) @ ''. '' @
                   or_else (response_blockReasonMessage response) ''''))
               else
                 (let description = responseText response;
                      finishReason = response_finishReason response;
                      errorMessage =
                        ''The AI model did not return a text description. Reason: '' @
                        or_else finishReason ''Unknown'' @
                        ''. This can happen due to safety filters.''
                  in case description of
                       None \<Rightarrow> Inl (Error errorMessage)
                     | Some text \<Rightarrow>
                         if text = [] then Inl (Error errorMessage)
                         else Inr (trim text)))))"

section \<open>\<open>generateImageFromPrompt\<close>\<close>

text \<open>
  Reading \<open>imageBytes\<close> of an \<open>image\<close> that is \<open>undefined\<close> throws a \<open>TypeError\<close>, whose
  message is the engine's; this is V8's.
\<close>

definition typeErrorMessage :: string where
  "typeErrorMessage = ''Cannot read properties of undefined (reading 'imageBytes')''"

text \<open>
  The function returns the requests it has sent, in order, with its outcome. The client
  is constructed before the \<open>try\<close> block: when the constructor throws, no request is sent
  and what it threw leaves the function as it is. \<open>attempt\<close> is the outcome of the \<open>try\<close>
  block, and the \<open>catch\<close> clause turns whatever was thrown there into a new \<open>Error\<close>.
\<close>

definition generateImageFromPrompt ::
  "(string option \<Rightarrow> js_thrown + GoogleGenAI) \<Rightarrow> string option \<Rightarrow> string \<Rightarrow>
     GenerateImagesParameters list \<times> (js_thrown + string)" where
  "generateImageFromPrompt newGoogleGenAI apiKey userPrompt =
     (case newGoogleGenAI apiKey of
        Inl thrown \<Rightarrow> ([], Inl thrown)
      | Inr ai \<Rightarrow>
     (let request =
            \<lparr>params_model = ''imagen-4.0-generate-001'',
             params_prompt = userPrompt,
             params_config = \<lparr>numberOfImages = 1, outputMimeType = ''image/png'',
                              aspectRatio = ''1:1''\<rparr>\<rparr>;
          attempt =
            (case models_generateImages ai request of
               Inl err \<Rightarrow> Inl err
             | Inr response \<Rightarrow>
                 (case generatedImages response of
                    Some (first # others) \<Rightarrow>
                      (case generated_image first of
                         None \<Rightarrow> Inl (Error typeErrorMessage)
                       | Some img \<Rightarrow>
                           Inr (''data:image/png;base64,'' @ interpolate (imageBytes img)))
                  | _ \<Rightarrow>
                      Inl (Error ''The AI model did not return an image. This might be due to safety filters or the complexity of the prompt.'')))
      in ([request],
          (case attempt of
             Inr url \<Rightarrow> Inr url
           | Inl err \<Rightarrow>
               Inl (Error (case err of
                             Error m \<Rightarrow> m
                           | NotAnError \<Rightarrow> ''An unknown error occurred during image generation.''))))))"

section \<open>Example values\<close>

definition pngPart :: Part where
  "pngPart = \<lparr>inlineData = Some \<lparr>mimeType = Some ''image/png'', data = Some ''iVBORw0KGgo=''\<rparr>,
     partText = None\<rparr>"

definition jpegPart :: Part where
  "jpegPart = \<lparr>inlineData = Some \<lparr>mimeType = Some ''image/jpeg'', data = Some ''/9j/4AAQSkZJRg==''\<rparr>,
     partText = None\<rparr>"

definition commentPart :: Part where
  "commentPart = \<lparr>inlineData = None, partText = Some ''Here is your image.''\<rparr>"

definition blockedWithImage :: GenerateContentResponse where
  "blockedWithImage =
     \<lparr>promptFeedback = Some \<lparr>blockReason = Some ''SAFETY'',
                              blockReasonMessage = Some ''The prompt was flagged.''\<rparr>,
      candidates = Some [\<lparr>content = Some \<lparr>parts = Some [pngPart]\<rparr>,
                          finishReason = Some ''STOP''\<rparr>],
      responseText = None\<rparr>"

definition twoImages :: GenerateContentResponse where
  "twoImages =
     \<lparr>promptFeedback = None,
      candidates = Some [\<lparr>content = Some \<lparr>parts = Some [commentPart, pngPart, jpegPart]\<rparr>,
                          finishReason = Some ''STOP''\<rparr>],
      responseText = Some ''Here is your image.''\<rparr>"

definition stoppedForSafety :: GenerateContentResponse where
  "stoppedForSafety =
     \<lparr>promptFeedback = None,
      candidates = Some [\<lparr>content = None, finishReason = Some ''SAFETY''\<rparr>],
      responseText = None\<rparr>"

definition textOnly :: GenerateContentResponse where
  "textOnly =
     \<lparr>promptFeedback = None,
      candidates = Some [\<lparr>content = Some \<lparr>parts = Some [commentPart]\<rparr>,
                          finishReason = Some ''STOP''\<rparr>],
      responseText = Some '' I cannot edit this image. ''\<rparr>"

definition falsyStyle :: TextStyle where
  "falsyStyle = \<lparr>style_font = Some '''', style_size = None, style_color = Some '''',
     style_bold = Some False, style_italic = Some False\<rparr>"

definition arialBold :: TextStyle where
  "arialBold = \<lparr>style_font = Some ''Arial'', style_size = None, style_color = Some '''',
     style_bold = Some True, style_italic = Some False\<rparr>"

text \<open>
  Clients and constructors: a service that returns no image, one that cannot be reached, one
  that answers a description request with white space; a constructor that hands out a given
  client for any key, one that throws an error when the key is not set, and one that
  throws a value that is not an error.
\<close>

definition blankText :: GenerateContentResponse where
  "blankText =
     \<lparr>promptFeedback = None,
      candidates = Some [\<lparr>content = Some \<lparr>parts = Some
                            [\<lparr>inlineData = None, partText = Some '' \<newline>''\<rparr>]\<rparr>,
                          finishReason = Some ''STOP''\<rparr>],
      responseText = Some '' \<newline>''\<rparr>"

definition describesBlank :: GoogleGenAI where
  "describesBlank =
     \<lparr>models_generateContent = (\<lambda>request. Inr blankText),
      models_generateImages = (\<lambda>request. Inl NotAnError)\<rparr>"

definition noImages :: GoogleGenAI where
  "noImages =
     \<lparr>models_generateContent = (\<lambda>request. Inl NotAnError),
      models_generateImages = (\<lambda>request. Inr \<lparr>generatedImages = Some []\<rparr>)\<rparr>"

definition networkDown :: GoogleGenAI where
  "networkDown =
     \<lparr>models_generateContent = (\<lambda>request. Inl NotAnError),
      models_generateImages = (\<lambda>request. Inl NotAnError)\<rparr>"

definition handsOut :: "GoogleGenAI \<Rightarrow> string option \<Rightarrow> js_thrown + GoogleGenAI" where
  "handsOut ai apiKey = Inr ai"

definition keyRequired :: "string option \<Rightarrow> js_thrown + GoogleGenAI" where
  "keyRequired apiKey =
     (case apiKey of
        None \<Rightarrow> Inl (Error ''An API key must be set'')
      | Some k \<Rightarrow> Inr noImages)"

definition throwsValue :: "string option \<Rightarrow> js_thrown + GoogleGenAI" where
  "throwsValue apiKey = Inl NotAnError"

section \<open>The classification of a response by \<open>handleApiResponse\<close>\<close>

lemmas accessors = response_blockReason_def response_blockReasonMessage_def
  response_parts_def response_finishReason_def firstCandidate_def

text \<open>The loop returns the data URL of the first part that has \<open>inlineData\<close>.\<close>

lemma scanParts_find:
  "scanParts ps =
     (case find (\<lambda>q. inlineData q \<noteq> None) ps of
        None \<Rightarrow> None
      | Some p \<Rightarrow>
          (case inlineData p of
             None \<Rightarrow> None
           | Some b \<Rightarrow>
               Some (''data:'' @ interpolate (mimeType b) @ '';base64,'' @ interpolate (data b))))"
  by (induction ps) (auto split: option.splits)

lemma scanParts_none: "list_all (\<lambda>q. inlineData q = None) ps \<Longrightarrow> scanParts ps = None"
  by (induction ps) auto

text \<open>
  C1. A response whose prompt feedback carries a non-empty block reason is classified as
  blocked: \<open>handleApiResponse\<close> throws the error whose message holds the block reason and,
  when there is one, the accompanying message. This holds whatever else the response
  contains, so also with an inline image part, and no data URL is returned.
\<close>

theorem blocked_before_image:
  assumes "promptFeedback response = Some feedback"
    and "blockReason feedback = Some reason" and "reason \<noteq> []"
  shows "handleApiResponse response context =
           Inl (Error (''Request was blocked. Reason: '' @ reason @ ''. '' @
             (case blockReasonMessage feedback of None \<Rightarrow> [] | Some m \<Rightarrow> m)))
         \<and> (\<forall>url. handleApiResponse response context \<noteq> Inr url)"
  using assms
  by (simp add: handleApiResponse_def response_blockReason_def response_blockReasonMessage_def
      truthy_def interpolate_def or_else_def split: option.splits)

theorem blocked_before_image_witness:
  "promptFeedback blockedWithImage =
     Some \<lparr>blockReason = Some ''SAFETY'', blockReasonMessage = Some ''The prompt was flagged.''\<rparr>
   \<and> response_parts blockedWithImage = Some [pngPart]
   \<and> inlineData pngPart \<noteq> None
   \<and> handleApiResponse blockedWithImage ''edit'' =
       Inl (Error ''Request was blocked. Reason: SAFETY. The prompt was flagged.'')"
  using blocked_before_image [of blockedWithImage
      "\<lparr>blockReason = Some ''SAFETY'', blockReasonMessage = Some ''The prompt was flagged.''\<rparr>"
      "''SAFETY''" "''edit''"]
  by (simp add: blockedWithImage_def pngPart_def accessors)

text \<open>
  C2. A response that is not blocked and whose first candidate has a part with inline
  data is classified as an image: the outcome is the data URL
  \<open>data:<mime>;base64,<payload>\<close> built from the mime type and the payload of the first
  such part. Later parts are not read; with two image parts the outcome is the first one's.
\<close>

theorem first_image_wins:
  assumes "\<not> truthy (response_blockReason response)"
    and "response_parts response = Some ps"
    and "find (\<lambda>q. inlineData q \<noteq> None) ps = Some p"
    and "inlineData p = Some b"
  shows "handleApiResponse response context =
           Inr (''data:'' @ interpolate (mimeType b) @ '';base64,'' @ interpolate (data b))"
  using assms by (simp add: handleApiResponse_def scanParts_find)

theorem first_image_wins_witness:
  "\<not> truthy (response_blockReason twoImages)
   \<and> response_parts twoImages = Some [commentPart, pngPart, jpegPart]
   \<and> find (\<lambda>q. inlineData q \<noteq> None) [commentPart, pngPart, jpegPart] = Some pngPart
   \<and> handleApiResponse twoImages ''filter'' = Inr ''data:image/png;base64,iVBORw0KGgo=''"
  using first_image_wins [of twoImages "[commentPart, pngPart, jpegPart]" pngPart
      "\<lparr>mimeType = Some ''image/png'', data = Some ''iVBORw0KGgo=''\<rparr>" "''filter''"]
  by (simp add: twoImages_def pngPart_def jpegPart_def commentPart_def accessors truthy_def
      interpolate_def)

text \<open>
  C3. A response that is not blocked and has no part with inline data, and whose first
  candidate has a finish reason other than \<open>STOP\<close>, is classified as stopped: the error's
  message holds the context label and the finish reason. A finish reason is present when
  it is truthy, that is a non-empty string.
\<close>

theorem abnormal_stop:
  assumes "\<not> truthy (response_blockReason response)"
    and "case response_parts response of
           None \<Rightarrow> True
         | Some ps \<Rightarrow> list_all (\<lambda>q. inlineData q = None) ps"
    and "response_finishReason response = Some reason"
    and "reason \<noteq> []" and "reason \<noteq> ''STOP''"
  shows "handleApiResponse response context =
           Inl (Error (''Image generation for '' @ context @
             '' stopped unexpectedly. Reason: '' @ reason @
             ''. This often relates to safety settings.''))"
  using assms
  by (simp add: handleApiResponse_def scanParts_none truthy_def interpolate_def
      split: option.splits)

theorem abnormal_stop_witness:
  "\<not> truthy (response_blockReason stoppedForSafety)
   \<and> response_parts stoppedForSafety = None
   \<and> response_finishReason stoppedForSafety = Some ''SAFETY''
   \<and> handleApiResponse stoppedForSafety ''adjustment'' =
       Inl (Error ''Image generation for adjustment stopped unexpectedly. Reason: SAFETY. This often relates to safety settings.'')"
  using abnormal_stop [of stoppedForSafety "''SAFETY''" "''adjustment''"]
  by (simp add: stoppedForSafety_def accessors truthy_def)

text \<open>
  C4. A response that is not blocked, has no part with inline data, and whose finish
  reason is \<open>STOP\<close> or absent, is classified as having no image: the error's message holds
  the context label, followed by the trimmed top-level text in quotes when that text is
  not empty, and by a fixed explanation otherwise.
\<close>

theorem text_fallback:
  assumes "\<not> truthy (response_blockReason response)"
    and "case response_parts response of
           None \<Rightarrow> True
         | Some ps \<Rightarrow> list_all (\<lambda>q. inlineData q = None) ps"
    and "\<not> truthy (response_finishReason response)
         \<or> response_finishReason response = Some ''STOP''"
  shows "handleApiResponse response context =
           Inl (Error (''The AI model did not return an image for the '' @ context @ ''. '' @
             (case responseText response of
                None \<Rightarrow> ''This can happen due to safety filters or if the request is too complex. Please try rephrasing your prompt to be more direct.''
              | Some t \<Rightarrow>
                  if trim t = []
                  then ''This can happen due to safety filters or if the request is too complex. Please try rephrasing your prompt to be more direct.''
                  else ''The model responded with text: \"'' @ trim t @ ''\"'')))"
  using assms
  by (auto simp add: handleApiResponse_def scanParts_none truthy_def interpolate_def Let_def
      split: option.splits)

theorem text_fallback_witness:
  "\<not> truthy (response_blockReason textOnly)
   \<and> response_parts textOnly = Some [commentPart]
   \<and> list_all (\<lambda>q. inlineData q = None) [commentPart]
   \<and> response_finishReason textOnly = Some ''STOP''
   \<and> handleApiResponse textOnly ''text edit'' =
       Inl (Error ''The AI model did not return an image for the text edit. The model responded with text: \"I cannot edit this image.\"'')"
  using text_fallback [of textOnly "''text edit''"]
  by (simp add: textOnly_def commentPart_def accessors truthy_def trim_def isWhiteSpace_def)

section \<open>The instruction of the text replacement\<close>

lemma sublist_skip: "sublist xs zs \<Longrightarrow> sublist xs (ys @ zs)"
  by (metis sublist_order.order.trans sublist_append_leftI)

text \<open>The lines of \<open>styleParts\<close>, field by field, in the order of the calls of \<open>push\<close>.\<close>

lemma styleParts_lines:
  "styleParts style =
     (if truthy (style_font style) then [''- Font face similar to: '' @ interpolate (style_font style)] else []) @
     (if truthy (style_size style) then [''- Size: '' @ interpolate (style_size style)] else []) @
     (if truthy (style_color style) then [''- Color: '' @ interpolate (style_color style)] else []) @
     (if truthy_bool (style_bold style) then [''- Weight: Bold''] else []) @
     (if truthy_bool (style_italic style) then [''- Style: Italic''] else [])"
  by (simp add: styleParts_def Let_def)

lemma styleParts_empty:
  "styleParts style = [] \<longleftrightarrow>
     \<not> truthy (style_font style) \<and> \<not> truthy (style_size style) \<and> \<not> truthy (style_color style)
     \<and> \<not> truthy_bool (style_bold style) \<and> \<not> truthy_bool (style_italic style)"
  by (simp add: styleParts_lines)

lemma styleInstructions_in_prompt:
  "sublist (styleInstructions oldText newText style)
     (generateTextEditImage_prompt oldText newText style)"
  unfolding generateTextEditImage_prompt_def
  by (rule sublist_append_rightI | rule sublist_skip)+

lemma strict_in_styleInstructions:
  assumes "styleParts style = []"
  shows "sublist
     (''Your primary task is to make the new text, \"'' @ newText @ ''\", an absolutely seamless replacement for the original text, \"'' @ oldText @ ''\". To achieve this, you must follow a strict process:\<newline>'' @
      ''1.  **Analyze the Original Text:** Carefully examine \"'' @ oldText @ ''\" in the image. Identify all of its visual properties with extreme precision.\<newline>'' @
      ''2.  **Extract Key Attributes:** Your analysis must determine the following:\<newline>'' @
      ''    -   **Font:** The exact font face, weight (bold, regular), and style (italic, normal).\<newline>'' @
      ''    -   **Color:** The precise color, including any gradients, textures, or patterns.\<newline>'' @
      ''    -   **Size & Scale:** The font size relative to the image and its surroundings.\<newline>'' @
      ''    -   **Perspective & Transformation:** Any rotation, skewing, warping, or perspective applied to the text.\<newline>'' @
      ''    -   **Lighting & Effects:** How the text interacts with the scene's lighting. Identify and replicate all shadows, highlights, glows, or bevels.\<newline>'' @
      ''3.  **Apply to New Text:** Render the new text, \"'' @ newText @ ''\", using the *exact* attributes you extracted. The new text must occupy the same 3D space as the original.'')
     (styleInstructions oldText newText style)" (is "sublist ?strict _")
proof -
  have "styleInstructions oldText newText style =
          ''\<newline>Key Style Instructions for the new text:\<newline>'' @ ?strict @
          ''\<newline>\<newline>The final result must be indistinguishable from a real photograph where the new text was present from the beginning.\<newline>''"
    using assms by (simp add: styleInstructions_def)
  then show ?thesis
    by (simp only: sublist_appendI)
qed

text \<open>
  Two facts on \<open>js_split\<close>: a string without the separator is its only piece, and the
  text before the first separator is the first piece.
\<close>

lemma js_split_without: "sep \<notin> set s \<Longrightarrow> js_split sep s = [s]"
  by (induction s) auto

lemma js_split_at_first: "sep \<notin> set a \<Longrightarrow> js_split sep (a @ sep # b) = a # js_split sep b"
  by (induction a) auto

text \<open>Splitting what \<open>join\<close> has joined gives the pieces back when no piece holds the separator.\<close>

lemma js_split_join:
  assumes "pieces \<noteq> []" and "list_all (\<lambda>piece. sep \<notin> set piece) pieces"
  shows "js_split sep (join [sep] pieces) = pieces"
  using assms
proof (induction "[sep]" pieces rule: join.induct)
  case 1
  then show ?case by simp
next
  case (2 piece)
  then show ?case by (simp add: js_split_without)
next
  case (3 piece other pieces)
  then show ?case by (simp add: js_split_at_first)
qed

lemma styleParts_one_line_each:
  assumes "\<forall>v. style_font style = Some v \<or> style_size style = Some v \<or> style_color style = Some v
             \<longrightarrow> \<not> list_ex isLineTerminator v"
  shows "list_all (\<lambda>piece. CHR ''\<newline>'' \<notin> set piece) (styleParts style)"
proof -
  have "CHR ''\<newline>'' \<notin> set (interpolate (Some v))" if "\<not> list_ex isLineTerminator v" for v
    using that by (auto simp add: interpolate_def isLineTerminator_def list_ex_iff)
  then show ?thesis
    using assms
    by (auto simp add: styleParts_lines truthy_def split: option.splits)
qed

text \<open>
  C5. The instruction of a text replacement is the fixed text around one of two style
  blocks. When a field of the style is set (a non-empty \<open>font\<close>, \<open>size\<close> or \<open>color\<close>, a
  true \<open>bold\<close> or \<open>italic\<close>), the block is the heading, then the lines of \<open>styleParts\<close>
  joined by line feeds, then the rule that an attribute not listed is matched to the
  original text; and \<open>styleParts\<close> holds exactly the lines of the fields that are set, one
  per field, in the order font, size, color, weight, style, and nothing else. When no
  field is set, the block is the strict process: analyse the original text, extract its
  font, color, size and scale, perspective and lighting, and render the new text with
  exactly these attributes. The first conjunct gives the whole instruction, so nothing
  else is compiled into it. The values of the fields are passed through as they are: when
  none of them holds a line terminator, the text between the heading and the rule, split
  at the line feeds, is exactly the lines of the set fields.
\<close>

theorem style_branching:
  "generateTextEditImage_prompt oldText newText style =
     ''You are an expert photo editor AI specializing in typography and photorealistic text integration. Your task is to find and replace text within the provided image.\<newline>'' @
     ''\<newline>'' @
     ''Text to find: \"'' @ oldText @ ''\"\<newline>'' @
     ''Text to replace it with: \"'' @ newText @ ''\"\<newline>'' @
     (if truthy (style_font style) \<or> truthy (style_size style) \<or> truthy (style_color style)
           \<or> truthy_bool (style_bold style) \<or> truthy_bool (style_italic style)
        then
          ''\<newline>'' @
          ''Key Style Instructions for the new text:\<newline>'' @
          join ''\<newline>'' (styleParts style) @ ''\<newline>'' @
          ''\<newline>'' @
          ''If a style attribute is not specified above, you MUST intelligently match it to the original text's style (\"'' @ oldText @ ''\"). If there was no original text, match the surrounding environment for a natural look.\<newline>''
        else
          ''\<newline>'' @
          ''Key Style Instructions for the new text:\<newline>'' @
          ''Your primary task is to make the new text, \"'' @ newText @ ''\", an absolutely seamless replacement for the original text, \"'' @ oldText @ ''\". To achieve this, you must follow a strict process:\<newline>'' @
          ''1.  **Analyze the Original Text:** Carefully examine \"'' @ oldText @ ''\" in the image. Identify all of its visual properties with extreme precision.\<newline>'' @
          ''2.  **Extract Key Attributes:** Your analysis must determine the following:\<newline>'' @
          ''    -   **Font:** The exact font face, weight (bold, regular), and style (italic, normal).\<newline>'' @
          ''    -   **Color:** The precise color, including any gradients, textures, or patterns.\<newline>'' @
          ''    -   **Size & Scale:** The font size relative to the image and its surroundings.\<newline>'' @
          ''    -   **Perspective & Transformation:** Any rotation, skewing, warping, or perspective applied to the text.\<newline>'' @
          ''    -   **Lighting & Effects:** How the text interacts with the scene's lighting. Identify and replicate all shadows, highlights, glows, or bevels.\<newline>'' @
          ''3.  **Apply to New Text:** Render the new text, \"'' @ newText @ ''\", using the *exact* attributes you extracted. The new text must occupy the same 3D space as the original.\<newline>'' @
          ''\<newline>'' @
          ''The final result must be indistinguishable from a real photograph where the new text was present from the beginning.\<newline>'') @ ''\<newline>'' @
     ''General Instructions:\<newline>'' @
     ''1.  **Find the Text:** Accurately locate the instance of \"'' @ oldText @ ''\" in the image. If there are multiple instances, replace the most prominent one.\<newline>'' @
     ''2.  **Reconstruct Background:** Before adding the new text, intelligently remove the original text and reconstruct the background behind it as if the text was never there. This is a critical step.\<newline>'' @
     ''3.  **Seamless Integration:** The final result should be photorealistic and indistinguishable from a real photograph. The new text should look like it was part of the original scene.\<newline>'' @
     ''4.  **Preserve Image:** The rest of the image (everything other than the text being replaced) must remain absolutely identical to the original.\<newline>'' @
     ''\<newline>'' @
     ''Output: Return ONLY the final edited image in the same resolution. Do not return any text, explanations, or dialogue.''
   \<and> styleParts style =
        (if truthy (style_font style)
          then [''- Font face similar to: '' @ interpolate (style_font style)] else []) @
         (if truthy (style_size style)
          then [''- Size: '' @ interpolate (style_size style)] else []) @
         (if truthy (style_color style)
          then [''- Color: '' @ interpolate (style_color style)] else []) @
         (if truthy_bool (style_bold style) then [''- Weight: Bold''] else []) @
         (if truthy_bool (style_italic style) then [''- Style: Italic''] else [])
   \<and> ((\<forall>v. style_font style = Some v \<or> style_size style = Some v \<or> style_color style = Some v
            \<longrightarrow> \<not> list_ex isLineTerminator v)
        \<and> styleParts style \<noteq> [] \<longrightarrow>
        js_split CHR ''\<newline>'' (join ''\<newline>'' (styleParts style)) = styleParts style)"
proof (intro conjI impI)
  show "generateTextEditImage_prompt oldText newText style =
     ''You are an expert photo editor AI specializing in typography and photorealistic text integration. Your task is to find and replace text within the provided image.\<newline>'' @
     ''\<newline>'' @
     ''Text to find: \"'' @ oldText @ ''\"\<newline>'' @
     ''Text to replace it with: \"'' @ newText @ ''\"\<newline>'' @
     (if truthy (style_font style) \<or> truthy (style_size style) \<or> truthy (style_color style)
           \<or> truthy_bool (style_bold style) \<or> truthy_bool (style_italic style)
        then
          ''\<newline>'' @
          ''Key Style Instructions for the new text:\<newline>'' @
          join ''\<newline>'' (styleParts style) @ ''\<newline>'' @
          ''\<newline>'' @
          ''If a style attribute is not specified above, you MUST intelligently match it to the original text's style (\"'' @ oldText @ ''\"). If there was no original text, match the surrounding environment for a natural look.\<newline>''
        else
          ''\<newline>'' @
          ''Key Style Instructions for the new text:\<newline>'' @
          ''Your primary task is to make the new text, \"'' @ newText @ ''\", an absolutely seamless replacement for the original text, \"'' @ oldText @ ''\". To achieve this, you must follow a strict process:\<newline>'' @
          ''1.  **Analyze the Original Text:** Carefully examine \"'' @ oldText @ ''\" in the image. Identify all of its visual properties with extreme precision.\<newline>'' @
          ''2.  **Extract Key Attributes:** Your analysis must determine the following:\<newline>'' @
          ''    -   **Font:** The exact font face, weight (bold, regular), and style (italic, normal).\<newline>'' @
          ''    -   **Color:** The precise color, including any gradients, textures, or patterns.\<newline>'' @
          ''    -   **Size & Scale:** The font size relative to the image and its surroundings.\<newline>'' @
          ''    -   **Perspective & Transformation:** Any rotation, skewing, warping, or perspective applied to the text.\<newline>'' @
          ''    -   **Lighting & Effects:** How the text interacts with the scene's lighting. Identify and replicate all shadows, highlights, glows, or bevels.\<newline>'' @
          ''3.  **Apply to New Text:** Render the new text, \"'' @ newText @ ''\", using the *exact* attributes you extracted. The new text must occupy the same 3D space as the original.\<newline>'' @
          ''\<newline>'' @
          ''The final result must be indistinguishable from a real photograph where the new text was present from the beginning.\<newline>'') @ ''\<newline>'' @
     ''General Instructions:\<newline>'' @
     ''1.  **Find the Text:** Accurately locate the instance of \"'' @ oldText @ ''\" in the image. If there are multiple instances, replace the most prominent one.\<newline>'' @
     ''2.  **Reconstruct Background:** Before adding the new text, intelligently remove the original text and reconstruct the background behind it as if the text was never there. This is a critical step.\<newline>'' @
     ''3.  **Seamless Integration:** The final result should be photorealistic and indistinguishable from a real photograph. The new text should look like it was part of the original scene.\<newline>'' @
     ''4.  **Preserve Image:** The rest of the image (everything other than the text being replaced) must remain absolutely identical to the original.\<newline>'' @
     ''\<newline>'' @
     ''Output: Return ONLY the final edited image in the same resolution. Do not return any text, explanations, or dialogue.''"
    by (simp add: generateTextEditImage_prompt_def styleInstructions_def styleParts_empty)
  show "styleParts style =
        (if truthy (style_font style)
          then [''- Font face similar to: '' @ interpolate (style_font style)] else []) @
         (if truthy (style_size style)
          then [''- Size: '' @ interpolate (style_size style)] else []) @
         (if truthy (style_color style)
          then [''- Color: '' @ interpolate (style_color style)] else []) @
         (if truthy_bool (style_bold style) then [''- Weight: Bold''] else []) @
         (if truthy_bool (style_italic style) then [''- Style: Italic''] else [])"
    by (rule styleParts_lines)
  assume "(\<forall>v. style_font style = Some v \<or> style_size style = Some v \<or> style_color style = Some v
            \<longrightarrow> \<not> list_ex isLineTerminator v)
        \<and> styleParts style \<noteq> []"
  then show "js_split CHR ''\<newline>'' (join ''\<newline>'' (styleParts style)) = styleParts style"
    using js_split_join [of "styleParts style" "CHR ''\<newline>''"] styleParts_one_line_each [of style]
    by blast
qed

theorem style_branching_witness:
  "\<not> list_ex isLineTerminator ''Arial''
   \<and> styleParts arialBold = [''- Font face similar to: Arial'', ''- Weight: Bold'']
   \<and> js_split CHR ''\<newline>'' (join ''\<newline>'' (styleParts arialBold)) =
       [''- Font face similar to: Arial'', ''- Weight: Bold'']
   \<and> generateTextEditImage_prompt ''SALE'' ''SOLD'' arialBold =
      ''You are an expert photo editor AI specializing in typography and photorealistic text integration. Your task is to find and replace text within the provided image.\<newline>'' @
      ''\<newline>'' @
      ''Text to find: \"SALE\"\<newline>'' @
      ''Text to replace it with: \"SOLD\"\<newline>'' @
      ''\<newline>'' @
      ''Key Style Instructions for the new text:\<newline>'' @
      ''- Font face similar to: Arial\<newline>'' @
      ''- Weight: Bold\<newline>'' @
      ''\<newline>'' @
      ''If a style attribute is not specified above, you MUST intelligently match it to the original text's style (\"SALE\"). If there was no original text, match the surrounding environment for a natural look.\<newline>'' @
      ''\<newline>'' @
      ''General Instructions:\<newline>'' @
      ''1.  **Find the Text:** Accurately locate the instance of \"SALE\" in the image. If there are multiple instances, replace the most prominent one.\<newline>'' @
      ''2.  **Reconstruct Background:** Before adding the new text, intelligently remove the original text and reconstruct the background behind it as if the text was never there. This is a critical step.\<newline>'' @
      ''3.  **Seamless Integration:** The final result should be photorealistic and indistinguishable from a real photograph. The new text should look like it was part of the original scene.\<newline>'' @
      ''4.  **Preserve Image:** The rest of the image (everything other than the text being replaced) must remain absolutely identical to the original.\<newline>'' @
      ''\<newline>'' @
      ''Output: Return ONLY the final edited image in the same resolution. Do not return any text, explanations, or dialogue.''"
  using style_branching [of "''SALE''" "''SOLD''" arialBold]
  by (simp add: arialBold_def truthy_def truthy_bool_def interpolate_def isLineTerminator_def)

text \<open>
  C10. A style whose fields are all absent or falsy (an empty string, \<open>false\<close>) gives no
  style line, and the instruction is the one of the empty style: it contains the strict
  process of analysing the original text.
\<close>

theorem falsy_fields_as_absent:
  assumes "style_font style = None \<or> style_font style = Some ''''"
    and "style_size style = None \<or> style_size style = Some ''''"
    and "style_color style = None \<or> style_color style = Some ''''"
    and "style_bold style = None \<or> style_bold style = Some False"
    and "style_italic style = None \<or> style_italic style = Some False"
  shows "styleParts style = []
         \<and> styleInstructions oldText newText style = styleInstructions oldText newText emptyStyle
         \<and> generateTextEditImage_prompt oldText newText style =
             generateTextEditImage_prompt oldText newText emptyStyle
         \<and> sublist
              (''Your primary task is to make the new text, \"'' @ newText @ ''\", an absolutely seamless replacement for the original text, \"'' @ oldText @ ''\". To achieve this, you must follow a strict process:\<newline>'' @
               ''1.  **Analyze the Original Text:** Carefully examine \"'' @ oldText @ ''\" in the image. Identify all of its visual properties with extreme precision.\<newline>'' @
               ''2.  **Extract Key Attributes:** Your analysis must determine the following:\<newline>'' @
               ''    -   **Font:** The exact font face, weight (bold, regular), and style (italic, normal).\<newline>'' @
               ''    -   **Color:** The precise color, including any gradients, textures, or patterns.\<newline>'' @
               ''    -   **Size & Scale:** The font size relative to the image and its surroundings.\<newline>'' @
               ''    -   **Perspective & Transformation:** Any rotation, skewing, warping, or perspective applied to the text.\<newline>'' @
               ''    -   **Lighting & Effects:** How the text interacts with the scene's lighting. Identify and replicate all shadows, highlights, glows, or bevels.\<newline>'' @
               ''3.  **Apply to New Text:** Render the new text, \"'' @ newText @ ''\", using the *exact* attributes you extracted. The new text must occupy the same 3D space as the original.'')
              (generateTextEditImage_prompt oldText newText style)"
proof -
  have none: "styleParts style = []"
    using assms by (auto simp add: styleParts_empty truthy_def truthy_bool_def)
  have empty: "styleParts emptyStyle = []"
    by (simp add: styleParts_empty emptyStyle_def truthy_def truthy_bool_def)
  have same: "styleInstructions oldText newText style = styleInstructions oldText newText emptyStyle"
    by (simp add: styleInstructions_def none empty)
  note strict = sublist_order.order.trans
      [OF strict_in_styleInstructions [OF none] styleInstructions_in_prompt, of newText oldText]
  from none same strict show ?thesis
    by (simp add: generateTextEditImage_prompt_def)
qed

theorem falsy_fields_as_absent_witness:
  "style_font falsyStyle = Some '''' \<and> style_size falsyStyle = None
   \<and> style_color falsyStyle = Some '''' \<and> style_bold falsyStyle = Some False
   \<and> style_italic falsyStyle = Some False
   \<and> styleParts falsyStyle = []
   \<and> generateTextEditImage_prompt ''SALE'' ''SOLD'' falsyStyle =
       generateTextEditImage_prompt ''SALE'' ''SOLD'' emptyStyle
   \<and> sublist
        (''Your primary task is to make the new text, \"'' @ ''SOLD'' @ ''\", an absolutely seamless replacement for the original text, \"'' @ ''SALE'' @ ''\". To achieve this, you must follow a strict process:\<newline>'' @
         ''1.  **Analyze the Original Text:** Carefully examine \"'' @ ''SALE'' @ ''\" in the image. Identify all of its visual properties with extreme precision.\<newline>'' @
         ''2.  **Extract Key Attributes:** Your analysis must determine the following:\<newline>'' @
         ''    -   **Font:** The exact font face, weight (bold, regular), and style (italic, normal).\<newline>'' @
         ''    -   **Color:** The precise color, including any gradients, textures, or patterns.\<newline>'' @
         ''    -   **Size & Scale:** The font size relative to the image and its surroundings.\<newline>'' @
         ''    -   **Perspective & Transformation:** Any rotation, skewing, warping, or perspective applied to the text.\<newline>'' @
         ''    -   **Lighting & Effects:** How the text interacts with the scene's lighting. Identify and replicate all shadows, highlights, glows, or bevels.\<newline>'' @
         ''3.  **Apply to New Text:** Render the new text, \"'' @ ''SOLD'' @ ''\", using the *exact* attributes you extracted. The new text must occupy the same 3D space as the original.'')
        (generateTextEditImage_prompt ''SALE'' ''SOLD'' falsyStyle)"
proof -
  have fields: "style_font falsyStyle = Some ''''" "style_size falsyStyle = None"
    "style_color falsyStyle = Some ''''" "style_bold falsyStyle = Some False"
    "style_italic falsyStyle = Some False"
    by (simp_all add: falsyStyle_def)
  have "style_font falsyStyle = None \<or> style_font falsyStyle = Some ''''"
    and "style_size falsyStyle = None \<or> style_size falsyStyle = Some ''''"
    and "style_color falsyStyle = None \<or> style_color falsyStyle = Some ''''"
    and "style_bold falsyStyle = None \<or> style_bold falsyStyle = Some False"
    and "style_italic falsyStyle = None \<or> style_italic falsyStyle = Some False"
    by (simp_all add: fields)
  note at_falsy = falsy_fields_as_absent [OF this, of "''SALE''" "''SOLD''"]
  from fields at_falsy show ?thesis
    by (intro conjI) (elim conjE, assumption)+
qed

section \<open>The safety policy of the edit instructions\<close>

text \<open>
  C6, as stated, fails for the filter: the instruction of a filter that asks for a warm
  vintage look does not mention skin at all, so it has no directive on skin tone, and it
  has no rule for ambiguous requests.
\<close>

theorem filter_without_skin_tone_directive:
  "\<not> sublist ''skin'' (generateFilteredImage_prompt ''warm vintage look'')
   \<and> \<not> sublist ''ambiguous'' (generateFilteredImage_prompt ''warm vintage look'')"
  by code_simp

text \<open>
  C6, amended. The instructions of the localized edit and of the adjustment contain the same
  safety policy clause with both directives: requests to adjust skin tone must be
  fulfilled, and requests to change a person's race or ethnicity must be refused, an
  ambiguous request leaving racial characteristics unchanged. The instruction of the filter
  contains a clause of its own: a filter may shift colors but must not alter a person's
  race or ethnicity, and a request that explicitly asks to change a person's race must be
  refused.
\<close>

theorem safety_policy_clauses:
  "sublist
     (''Safety & Ethics Policy:\<newline>'' @
      ''- You MUST fulfill requests to adjust skin tone, such as 'give me a tan', 'make my skin darker', or 'make my skin lighter'. These are considered standard photo enhancements.\<newline>'' @
      ''- You MUST REFUSE any request to change a person's fundamental race or ethnicity (e.g., 'make me look Asian', 'change this person to be Black'). Do not perform these edits. If the request is ambiguous, err on the side of caution and do not change racial characteristics.'')
     (generateEditedImage_prompt numberToString userPrompt hotspot)
   \<and> sublist
     (''Safety & Ethics Policy:\<newline>'' @
      ''- You MUST fulfill requests to adjust skin tone, such as 'give me a tan', 'make my skin darker', or 'make my skin lighter'. These are considered standard photo enhancements.\<newline>'' @
      ''- You MUST REFUSE any request to change a person's fundamental race or ethnicity (e.g., 'make me look Asian', 'change this person to be Black'). Do not perform these edits. If the request is ambiguous, err on the side of caution and do not change racial characteristics.'')
     (generateAdjustedImage_prompt adjustmentPrompt)
   \<and> sublist
     (''Safety & Ethics Policy:\<newline>'' @
      ''- Filters may subtly shift colors, but you MUST ensure they do not alter a person's fundamental race or ethnicity.\<newline>'' @
      ''- YOU MUST REFUSE any request that explicitly asks to change a person's race (e.g., 'apply a filter to make me look Chinese').'')
     (generateFilteredImage_prompt filterPrompt)"
  unfolding generateEditedImage_prompt_def generateAdjustedImage_prompt_def
    generateFilteredImage_prompt_def
  apply (intro conjI)
    apply ((rule prefix_imp_sublist, (simp; fail)) | rule sublist_skip)+
  done

section \<open>\<open>fileToPart\<close> and data URLs\<close>

lemma js_split_nonempty: "js_split sep s \<noteq> []"
  by (induction s) (simp_all split: list.split)

lemma js_split_first_piece: "\<exists>pieces. js_split sep s = takeWhile (\<lambda>c. c \<noteq> sep) s # pieces"
  by (induction s) auto

lemma js_split_length: "length (js_split sep s) < 2 \<longleftrightarrow> sep \<notin> set s"
proof (cases "sep \<in> set s")
  case True
  then obtain a b where s: "s = a @ sep # b" "sep \<notin> set a"
    by (meson split_list_first)
  obtain piece pieces where "js_split sep b = piece # pieces"
    using js_split_nonempty [of sep b] by (cases "js_split sep b") auto
  then show ?thesis
    using True by (simp add: s js_split_at_first)
next
  case False
  then show ?thesis
    by (simp add: js_split_without)
qed

lemma lazyToSemicolon_Some:
  "lazyToSemicolon cs = Some m \<longleftrightarrow>
     (\<exists>post. cs = m @ CHR '';'' # post \<and> CHR '';'' \<notin> set m \<and> \<not> list_ex isLineTerminator m)"
proof (induction cs arbitrary: m)
  case Nil
  then show ?case by simp
next
  case (Cons c cs)
  show ?case
  proof (cases "c = CHR '';''")
    case True
    then show ?thesis
      by (cases m) auto
  next
    case False
    show ?thesis
    proof (cases "isLineTerminator c")
      case True
      with False show ?thesis
        by (cases m) auto
    next
      case nl: False
      with False Cons.IH show ?thesis
        by (cases m) auto
    qed
  qed
qed

lemma matchesAt_Nil: "matchesAt pre m post [] = False"
  by (simp add: matchesAt_def)

lemma matchesAt_Cons:
  "matchesAt pre m post (c # cs) \<longleftrightarrow>
     (pre = [] \<and> c = CHR '':'' \<and> cs = m @ CHR '';'' # post
        \<and> CHR '';'' \<notin> set m \<and> \<not> list_ex isLineTerminator m)
     \<or> (\<exists>pre'. pre = c # pre' \<and> matchesAt pre' m post cs)"
  by (cases pre) (auto simp: matchesAt_def)

lemma matchesAt_skip:
  assumes "\<not> (c = CHR '':'' \<and> lazyToSemicolon cs \<noteq> None)"
  shows "matchesAt pre m post (c # cs) \<longleftrightarrow> (\<exists>pre'. pre = c # pre' \<and> matchesAt pre' m post cs)"
proof -
  have "\<not> (c = CHR '':'' \<and> cs = m @ CHR '';'' # post
        \<and> CHR '';'' \<notin> set m \<and> \<not> list_ex isLineTerminator m)"
    using assms lazyToSemicolon_Some [of cs m] by blast
  then show ?thesis
    unfolding matchesAt_Cons [of pre m post c cs] by blast
qed

lemma matchesAt_here:
  assumes "lazyToSemicolon cs = Some m0"
  shows "\<exists>post. matchesAt [] m0 post (CHR '':'' # cs)"
    and "matchesAt [] m post (CHR '':'' # cs) \<Longrightarrow> m = m0"
proof -
  from assms obtain post0 where "cs = m0 @ CHR '';'' # post0" "CHR '';'' \<notin> set m0"
      "\<not> list_ex isLineTerminator m0"
    unfolding lazyToSemicolon_Some by blast
  then have "matchesAt [] m0 post0 (CHR '':'' # cs)"
    by (simp add: matchesAt_def)
  then show "\<exists>post. matchesAt [] m0 post (CHR '':'' # cs)" ..
next
  assume "matchesAt [] m post (CHR '':'' # cs)"
  then have "cs = m @ CHR '';'' # post \<and> CHR '';'' \<notin> set m \<and> \<not> list_ex isLineTerminator m"
    by (simp add: matchesAt_def)
  then have "lazyToSemicolon cs = Some m"
    unfolding lazyToSemicolon_Some by blast
  with assms show "m = m0" by simp
qed

lemma mimeMatch_None:
  "mimeMatch h = None \<longleftrightarrow> (\<forall>pre m post. \<not> matchesAt pre m post h)"
proof (induction h)
  case Nil
  then show ?case by (simp add: matchesAt_Nil)
next
  case (Cons c cs)
  show ?case
  proof (cases "c = CHR '':'' \<and> lazyToSemicolon cs \<noteq> None")
    case True
    then obtain m where m: "lazyToSemicolon cs = Some m" by blast
    from matchesAt_here(1) [OF m] True have "\<exists>pre m post. matchesAt pre m post (c # cs)"
      by blast
    moreover have "mimeMatch (c # cs) = Some m"
      using True m by simp
    ultimately show ?thesis by simp
  next
    case False
    have "mimeMatch (c # cs) = mimeMatch cs"
      using False by (cases "lazyToSemicolon cs") simp_all
    moreover have "(\<forall>pre m post. \<not> matchesAt pre m post (c # cs))
        \<longleftrightarrow> (\<forall>pre m post. \<not> matchesAt pre m post cs)"
      unfolding matchesAt_skip [OF False] by blast
    ultimately show ?thesis
      using Cons.IH by simp
  qed
qed

lemma mimeMatch_Some: "mimeMatch h = Some m \<longleftrightarrow> firstMatch h m"
proof (induction h)
  case Nil
  then show ?case by (simp add: firstMatch_def matchesAt_Nil)
next
  case (Cons c cs)
  show ?case
  proof (cases "c = CHR '':'' \<and> lazyToSemicolon cs \<noteq> None")
    case True
    then obtain m0 where m0: "lazyToSemicolon cs = Some m0" by blast
    from True have c: "c = CHR '':''" by simp
    from matchesAt_here(1) [OF m0] obtain post0 where at0: "matchesAt [] m0 post0 (c # cs)"
      unfolding c by blast
    have "firstMatch (c # cs) m \<longleftrightarrow> m = m0"
    proof
      assume "firstMatch (c # cs) m"
      then obtain pre post where a: "matchesAt pre m post (c # cs)"
        and least: "\<And>pre' m' post'. matchesAt pre' m' post' (c # cs) \<Longrightarrow> length pre \<le> length pre'"
        unfolding firstMatch_def by blast
      from least [OF at0] have "pre = []" by simp
      with a show "m = m0"
        using matchesAt_here(2) [OF m0] unfolding c by blast
    next
      assume "m = m0"
      with at0 show "firstMatch (c # cs) m"
        unfolding firstMatch_def by fastforce
    qed
    moreover have "mimeMatch (c # cs) = Some m0"
      using c m0 by simp
    ultimately show ?thesis by auto
  next
    case False
    note shift = matchesAt_skip [OF False]
    have "firstMatch (c # cs) m \<longleftrightarrow> firstMatch cs m"
    proof
      assume "firstMatch (c # cs) m"
      then obtain pre post where a: "matchesAt pre m post (c # cs)"
        and least: "\<And>pre' m' post'. matchesAt pre' m' post' (c # cs) \<Longrightarrow> length pre \<le> length pre'"
        unfolding firstMatch_def by blast
      from a obtain pre0 where pre0: "pre = c # pre0" "matchesAt pre0 m post cs"
        unfolding shift by blast
      have "length pre0 \<le> length pre'" if "matchesAt pre' m' post' cs" for pre' m' post'
      proof -
        from that have "matchesAt (c # pre') m' post' (c # cs)"
          unfolding shift by blast
        from least [OF this] show ?thesis
          by (simp add: pre0)
      qed
      with pre0 show "firstMatch cs m"
        unfolding firstMatch_def by blast
    next
      assume "firstMatch cs m"
      then obtain pre post where a: "matchesAt pre m post cs"
        and least: "\<And>pre' m' post'. matchesAt pre' m' post' cs \<Longrightarrow> length pre \<le> length pre'"
        unfolding firstMatch_def by blast
      from a have b: "matchesAt (c # pre) m post (c # cs)"
        unfolding shift by blast
      have "length (c # pre) \<le> length pre'" if "matchesAt pre' m' post' (c # cs)" for pre' m' post'
      proof -
        from that obtain pre1 where pre1: "pre' = c # pre1" "matchesAt pre1 m' post' cs"
          unfolding shift by blast
        from least [OF pre1(2)] show ?thesis
          by (simp add: pre1)
      qed
      with b show "firstMatch (c # cs) m"
        unfolding firstMatch_def by blast
    qed
    moreover have "mimeMatch (c # cs) = mimeMatch cs"
      using False by (cases "lazyToSemicolon cs") simp_all
    ultimately show ?thesis
      using Cons.IH by simp
  qed
qed



lemma fileToPart_split:
  assumes "CHR '','' \<notin> set header"
  shows "fileToPart (Inr (header @ CHR '','' # rest)) =
           (case mimeMatch header of
              None \<Rightarrow> Inl (Error ''Could not parse MIME type from data URL'')
            | Some m \<Rightarrow>
                if m = [] then Inl (Error ''Could not parse MIME type from data URL'')
                else Inr \<lparr>part_mimeType = m, part_data = takeWhile (\<lambda>c. c \<noteq> CHR '','') rest\<rparr>)"
proof -
  obtain pieces where "js_split CHR '','' rest = takeWhile (\<lambda>c. c \<noteq> CHR '','') rest # pieces"
    using js_split_first_piece by blast
  then have "js_split CHR '','' (header @ CHR '','' # rest) =
      header # takeWhile (\<lambda>c. c \<noteq> CHR '','') rest # pieces"
    by (simp add: js_split_at_first [OF assms])
  then show ?thesis
    by (simp add: fileToPart_def split: option.split)
qed

lemma first_separator_unique:
  assumes "a @ sep # b = a' @ sep # b'" and "sep \<notin> set a" and "sep \<notin> set a'"
  shows "a = a'"
  using assms
proof (induction a arbitrary: a')
  case Nil
  then show ?case by (cases a') auto
next
  case (Cons x a)
  then show ?case by (cases a') auto
qed

lemma fileToPart_no_comma:
  assumes "CHR '','' \<notin> set url"
  shows "fileToPart (Inr url) = Inl (Error ''Invalid data URL'')"
  by (simp add: fileToPart_def js_split_without [OF assms])

lemma mimeMatch_data_url:
  assumes "CHR '';'' \<notin> set mime" and "\<not> list_ex isLineTerminator mime"
  shows "mimeMatch (''data:'' @ mime @ '';base64'') = Some mime"
proof -
  have "lazyToSemicolon (mime @ '';base64'') = Some mime"
    unfolding lazyToSemicolon_Some using assms by simp
  then show ?thesis by simp
qed

text \<open>
  C7. \<open>fileToPart\<close> fails exactly when the file cannot be read or its data URL is not a
  well-formed two-part data URI: it fails with the reader's error when the file cannot be
  read, with \<open>Invalid data URL\<close> when there is no comma, and otherwise it fails if and only
  if the header before the first comma does not parse as \<open>:<mime>;\<close> with a non-empty mime
  type. On a well-formed data URI it returns the parsed mime type with the payload, the
  text between the first comma and the next one or the end; for
  \<open>data:<mime>;base64,<payload>\<close> these are \<open>mime\<close> and \<open>payload\<close>.
\<close>

theorem fileToPart_data_url:
  "fileToPart (Inl e) = Inl e
   \<and> (CHR '','' \<notin> set url \<longrightarrow> fileToPart (Inr url) = Inl (Error ''Invalid data URL''))
   \<and> ((\<exists>err. fileToPart (Inr url) = Inl err) \<longleftrightarrow> \<not> wellFormedDataUrl url)
   \<and> (\<forall>header rest m.
         url = header @ CHR '','' # rest \<and> CHR '','' \<notin> set header
           \<and> firstMatch header m \<and> m \<noteq> [] \<longrightarrow>
         fileToPart (Inr url) =
           Inr \<lparr>part_mimeType = m, part_data = takeWhile (\<lambda>c. c \<noteq> CHR '','') rest\<rparr>)
   \<and> (mime \<noteq> [] \<and> CHR '';'' \<notin> set mime \<and> CHR '','' \<notin> set mime
         \<and> \<not> list_ex isLineTerminator mime \<and> CHR '','' \<notin> set payload \<longrightarrow>
       fileToPart (Inr (''data:'' @ mime @ '';base64,'' @ payload)) =
         Inr \<lparr>part_mimeType = mime, part_data = payload\<rparr>)"
proof (intro conjI)
  show "fileToPart (Inl e) = Inl e"
    by (simp add: fileToPart_def)
  show "CHR '','' \<notin> set url \<longrightarrow> fileToPart (Inr url) = Inl (Error ''Invalid data URL'')"
    by (simp add: fileToPart_no_comma)
  show parsed: "\<forall>header rest m.
         url = header @ CHR '','' # rest \<and> CHR '','' \<notin> set header
           \<and> firstMatch header m \<and> m \<noteq> [] \<longrightarrow>
         fileToPart (Inr url) =
           Inr \<lparr>part_mimeType = m, part_data = takeWhile (\<lambda>c. c \<noteq> CHR '','') rest\<rparr>"
    by (auto simp add: fileToPart_split mimeMatch_Some [symmetric])
  show "(\<exists>err. fileToPart (Inr url) = Inl err) \<longleftrightarrow> \<not> wellFormedDataUrl url"
  proof (cases "CHR '','' \<in> set url")
    case False
    then have "\<not> wellFormedDataUrl url"
      unfolding wellFormedDataUrl_def by auto
    then show ?thesis
      using False by (simp add: fileToPart_no_comma)
  next
    case True
    then obtain header rest where u: "url = header @ CHR '','' # rest" "CHR '','' \<notin> set header"
      by (meson split_list_first)
    have unique: "header' = header"
      if "url = header' @ CHR '','' # rest'" "CHR '','' \<notin> set header'" for header' rest'
      using that u first_separator_unique [of header' "CHR '',''" rest' header rest]
      by simp
    show ?thesis
    proof (cases "\<exists>m. mimeMatch header = Some m \<and> m \<noteq> []")
      case True
      then obtain m where m: "mimeMatch header = Some m" "m \<noteq> []" by blast
      then have "wellFormedDataUrl url"
        unfolding wellFormedDataUrl_def using u mimeMatch_Some by blast
      then show ?thesis
        by (simp add: u fileToPart_split m)
    next
      case False
      have "\<not> wellFormedDataUrl url"
      proof
        assume "wellFormedDataUrl url"
        then obtain header' rest' m where "url = header' @ CHR '','' # rest'"
          "CHR '','' \<notin> set header'" "firstMatch header' m" "m \<noteq> []"
          unfolding wellFormedDataUrl_def by blast
        with unique have "firstMatch header m" "m \<noteq> []" by auto
        with False show False
          by (simp add: mimeMatch_Some)
      qed
      moreover have "\<exists>err. fileToPart (Inr url) = Inl err"
        using False unfolding u(1) fileToPart_split [OF u(2)]
        by (cases "mimeMatch header") auto
      ultimately show ?thesis by simp
    qed
  qed
  show "mime \<noteq> [] \<and> CHR '';'' \<notin> set mime \<and> CHR '','' \<notin> set mime
         \<and> \<not> list_ex isLineTerminator mime \<and> CHR '','' \<notin> set payload \<longrightarrow>
       fileToPart (Inr (''data:'' @ mime @ '';base64,'' @ payload)) =
         Inr \<lparr>part_mimeType = mime, part_data = payload\<rparr>"
  proof
    assume a: "mime \<noteq> [] \<and> CHR '';'' \<notin> set mime \<and> CHR '','' \<notin> set mime
         \<and> \<not> list_ex isLineTerminator mime \<and> CHR '','' \<notin> set payload"
    then have h: "CHR '','' \<notin> set (''data:'' @ mime @ '';base64'')"
      by simp
    have mm: "mimeMatch (''data:'' @ mime @ '';base64'') = Some mime"
      using a by (intro mimeMatch_data_url) simp_all
    have "''data:'' @ mime @ '';base64,'' @ payload = (''data:'' @ mime @ '';base64'') @ CHR '','' # payload"
      by simp
    then have "fileToPart (Inr (''data:'' @ mime @ '';base64,'' @ payload)) =
        fileToPart (Inr ((''data:'' @ mime @ '';base64'') @ CHR '','' # payload))"
      by (rule arg_cong)
    also have "\<dots> = Inr \<lparr>part_mimeType = mime, part_data = takeWhile (\<lambda>c. c \<noteq> CHR '','') payload\<rparr>"
      unfolding fileToPart_split [OF h] mm using a by simp
    also have "takeWhile (\<lambda>c. c \<noteq> CHR '','') payload = payload"
      using a by (auto simp add: takeWhile_eq_all_conv)
    finally show "fileToPart (Inr (''data:'' @ mime @ '';base64,'' @ payload)) =
         Inr \<lparr>part_mimeType = mime, part_data = payload\<rparr>" .
  qed
qed

theorem fileToPart_data_url_witness:
  "CHR '','' \<notin> set ''not a data URL''
   \<and> fileToPart (Inr ''not a data URL'') = Inl (Error ''Invalid data URL'')
   \<and> \<not> wellFormedDataUrl ''not a data URL''
   \<and> \<not> wellFormedDataUrl ''data:;base64,iVBORw0KGgo=''
   \<and> wellFormedDataUrl ''data:image/png;base64,iVBORw0KGgo=''
   \<and> fileToPart (Inr ''data:image/png;base64,iVBORw0KGgo='') =
       Inr \<lparr>part_mimeType = ''image/png'', part_data = ''iVBORw0KGgo=''\<rparr>"
proof -
  note plain = fileToPart_data_url
    [of NotAnError "''not a data URL''" "''image/png''" "''iVBORw0KGgo=''"]
  note empty = fileToPart_data_url
    [of NotAnError "''data:;base64,iVBORw0KGgo=''" "''image/png''" "''iVBORw0KGgo=''"]
  note png = fileToPart_data_url
    [of NotAnError "''data:image/png;base64,iVBORw0KGgo=''" "''image/png''" "''iVBORw0KGgo=''"]
  have no_comma: "CHR '','' \<notin> set ''not a data URL''"
    by simp
  with plain have 1: "fileToPart (Inr ''not a data URL'') = Inl (Error ''Invalid data URL'')"
    by blast
  with plain have 2: "\<not> wellFormedDataUrl ''not a data URL''"
    by blast
  have "fileToPart (Inr ''data:;base64,iVBORw0KGgo='') =
      Inl (Error ''Could not parse MIME type from data URL'')"
    by (simp add: fileToPart_def)
  with empty have 3: "\<not> wellFormedDataUrl ''data:;base64,iVBORw0KGgo=''"
    by blast
  have "''image/png'' \<noteq> [] \<and> CHR '';'' \<notin> set ''image/png'' \<and> CHR '','' \<notin> set ''image/png''
      \<and> \<not> list_ex isLineTerminator ''image/png'' \<and> CHR '','' \<notin> set ''iVBORw0KGgo=''"
    by (simp add: isLineTerminator_def)
  with png have "fileToPart (Inr (''data:'' @ ''image/png'' @ '';base64,'' @ ''iVBORw0KGgo='')) =
       Inr \<lparr>part_mimeType = ''image/png'', part_data = ''iVBORw0KGgo=''\<rparr>"
    by blast
  then have 4: "fileToPart (Inr ''data:image/png;base64,iVBORw0KGgo='') =
       Inr \<lparr>part_mimeType = ''image/png'', part_data = ''iVBORw0KGgo=''\<rparr>"
    by simp
  with png have 5: "wellFormedDataUrl ''data:image/png;base64,iVBORw0KGgo=''"
    by (metis Inl_Inr_False)
  from no_comma 1 2 3 4 5 show ?thesis
    by blast
qed

section \<open>\<open>generateImageFromPrompt\<close> and \<open>generateImageDescription\<close>\<close>

text \<open>
  C8, as stated, fails when the client cannot be constructed. The constructor is called
  before the \<open>try\<close> block: with a constructor that throws when no key is set, and no key,
  no request is sent (so none with the fixed configuration) and the constructor's error is
  what the caller gets; with a constructor that throws a value that is not an error, the
  caller gets that value, not an \<open>Error\<close>.
\<close>

theorem constructor_failure_escapes:
  "fst (generateImageFromPrompt keyRequired None ''a red bicycle'') = []
   \<and> snd (generateImageFromPrompt keyRequired None ''a red bicycle'') =
       Inl (Error ''An API key must be set'')
   \<and> snd (generateImageFromPrompt throwsValue None ''a red bicycle'') = Inl NotAnError"
  by (simp add: generateImageFromPrompt_def keyRequired_def throwsValue_def)

text \<open>
  C8, amended. When the constructor throws, \<open>generateImageFromPrompt\<close> sends no request and
  what was thrown leaves the function as it is. When the client is constructed, the
  function sends one request, for the model \<open>imagen-4.0-generate-001\<close> with the prompt as it
  is and the configuration of one image of type \<open>image/png\<close> and aspect ratio \<open>1:1\<close>; a
  response with no generated image gives the error that the model did not return an image;
  and whatever is thrown in the \<open>try\<close> block, by the remote call too, leaves the function as
  a new \<open>Error\<close>: with the message of the thrown error, or with a fixed message when the
  thrown value is not an error.
\<close>

theorem generateImageFromPrompt_contract:
  "(let request = \<lparr>params_model = ''imagen-4.0-generate-001'', params_prompt = userPrompt,
                    params_config = \<lparr>numberOfImages = 1, outputMimeType = ''image/png'',
                                     aspectRatio = ''1:1''\<rparr>\<rparr>;
        sent = fst (generateImageFromPrompt newGoogleGenAI apiKey userPrompt);
        outcome = snd (generateImageFromPrompt newGoogleGenAI apiKey userPrompt)
    in (\<forall>thrown. newGoogleGenAI apiKey = Inl thrown \<longrightarrow> sent = [] \<and> outcome = Inl thrown)
       \<and> (\<forall>ai. newGoogleGenAI apiKey = Inr ai \<longrightarrow>
            sent = [request]
            \<and> (\<forall>response. models_generateImages ai request = Inr response
                   \<and> (generatedImages response = None \<or> generatedImages response = Some []) \<longrightarrow>
                 outcome = Inl (Error ''The AI model did not return an image. This might be due to safety filters or the complexity of the prompt.''))
            \<and> (\<forall>m. models_generateImages ai request = Inl (Error m) \<longrightarrow> outcome = Inl (Error m))
            \<and> (models_generateImages ai request = Inl NotAnError \<longrightarrow>
                 outcome = Inl (Error ''An unknown error occurred during image generation.''))
            \<and> (\<forall>thrown. outcome = Inl thrown \<longrightarrow> (\<exists>m. thrown = Error m))))"
  by (auto simp add: generateImageFromPrompt_def Let_def
      split: sum.splits option.splits list.splits js_thrown.splits)

theorem generateImageFromPrompt_contract_witness:
  "keyRequired None = Inl (Error ''An API key must be set'')
   \<and> fst (generateImageFromPrompt keyRequired None ''a red bicycle'') = []
   \<and> handsOut noImages (Some ''key'') = Inr noImages
   \<and> fst (generateImageFromPrompt (handsOut noImages) (Some ''key'') ''a red bicycle'') =
     [\<lparr>params_model = ''imagen-4.0-generate-001'', params_prompt = ''a red bicycle'',
       params_config = \<lparr>numberOfImages = 1, outputMimeType = ''image/png'',
                        aspectRatio = ''1:1''\<rparr>\<rparr>]
   \<and> snd (generateImageFromPrompt (handsOut noImages) (Some ''key'') ''a red bicycle'') =
       Inl (Error ''The AI model did not return an image. This might be due to safety filters or the complexity of the prompt.'')
   \<and> snd (generateImageFromPrompt (handsOut networkDown) (Some ''key'') ''a red bicycle'') =
       Inl (Error ''An unknown error occurred during image generation.'')"
  using generateImageFromPrompt_contract [of "''a red bicycle''" keyRequired None]
    generateImageFromPrompt_contract [of "''a red bicycle''" "handsOut noImages" "Some ''key''"]
    generateImageFromPrompt_contract [of "''a red bicycle''" "handsOut networkDown" "Some ''key''"]
  by (simp add: Let_def noImages_def networkDown_def handsOut_def keyRequired_def)

text \<open>
  What \<open>generateImageDescription\<close> does with a response, once the client is constructed,
  the file is encoded and the remote call has returned: a block reason comes first; then a
  text that is not empty is trimmed and returned; otherwise the error carries the finish
  reason, or \<open>Unknown\<close>.
\<close>

lemma describe_classification:
  assumes "newGoogleGenAI apiKey = Inr ai"
    and "fileToPart readerOutcome = Inr originalImagePart"
    and "\<And>request. models_generateContent ai request = Inr response"
  shows "generateImageDescription newGoogleGenAI apiKey readerOutcome =
           (if truthy (response_blockReason response) then
              Inl (Error (''Request was blocked. Reason: '' @
                interpolate (response_blockReason response) @ ''. '' @
                or_else (response_blockReasonMessage response) ''''))
            else
              (case responseText response of
                 Some t \<Rightarrow>
                   if t \<noteq> [] then Inr (trim t)
                   else Inl (Error (''The AI model did not return a text description. Reason: '' @
                          or_else (response_finishReason response) ''Unknown'' @
                          ''. This can happen due to safety filters.''))
               | None \<Rightarrow>
                   Inl (Error (''The AI model did not return a text description. Reason: '' @
                     or_else (response_finishReason response) ''Unknown'' @
                     ''. This can happen due to safety filters.''))))"
  using assms
  by (simp add: generateImageDescription_def truthy_def interpolate_def Let_def split: option.splits)

text \<open>
  C9. The description is to be the trimmed text when that is not empty, and an error
  otherwise. \<open>generateImageDescription\<close> tests the text before it trims it: a response that
  is not blocked and whose text is white space only is returned as the empty description,
  not as the error that no description was returned.
\<close>

theorem blank_description_returned:
  "generateImageDescription (handsOut describesBlank) (Some ''key'')
     (Inr ''data:image/png;base64,iVBORw0KGgo='') = Inr ''''"
  by (simp add: generateImageDescription_def handsOut_def describesBlank_def fileToPart_def
      blankText_def accessors truthy_def interpolate_def trim_def isWhiteSpace_def
      isLineTerminator_def)

end
